theory Spec2Isabelle
  imports Main "HOL-Library.Word"
begin

section \<open>The Title block tool of src/index.js\<close>

text \<open>
  The repository is one JavaScript class, \<open>Title\<close>, a block tool for a block editor.
  The class owns one heading element of the host document, writes the block's text into
  the element's inner markup and reads it back.

  The embedding follows the class method by method.
  \<^item> A JavaScript string is a sequence of 16-bit code units.
  \<^item> A property that may be absent (\<open>undefined\<close>) is an \<open>option\<close>; a present property has
    the type its JSDoc typedef gives (\<open>TitleData\<close>, \<open>TitleConfig\<close>).
  \<^item> The document is a store of elements, and an element is referred to by its position
    in the store, so that the node returned by \<open>render\<close> and the node written by the
    \<open>data\<close> setter are the same object. Reading a property of something that is not a
    node raises \<open>TypeError\<close>, as reading a property of \<open>undefined\<close> does.
  \<^item> An element holds its inner markup as the string that reading \<open>innerHTML\<close> returns.
    Assigning a string to \<open>innerHTML\<close> parses it and replaces the children of the element,
    so what is read afterwards is the serialisation of the parsed string. The parser and
    the serialiser belong to the document, not to this repository: their composition is
    the parameter \<open>reserialise\<close> of every method that assigns \<open>innerHTML\<close>.
  \<^item> \<open>classList.add\<close> raises the exceptions of \<open>DOMTokenList.add\<close>.
  \<^item> A method takes the pair of the instance and the document and returns its result
    together with the new pair; a raised exception is the result \<open>Inl\<close>.
\<close>

subsection \<open>Strings\<close>

type_synonym jsstring = "16 word list"

definition js :: "string \<Rightarrow> jsstring" where
  "js s = map of_char s"

text \<open>
  \<open>String.prototype.trim\<close> removes the white space and line terminator code units of
  ECMAScript from both ends: TAB, LF, VT, FF, CR, SPACE, NBSP, U+1680, U+2000 to U+200A,
  U+2028, U+2029, U+202F, U+205F, U+3000 and U+FEFF.
\<close>

definition isWhiteSpace :: "16 word \<Rightarrow> bool" where
  "isWhiteSpace c \<longleftrightarrow>
     c \<in> set [0x0009, 0x000A, 0x000B, 0x000C, 0x000D, 0x0020, 0x00A0, 0x1680,
               0x2000, 0x2001, 0x2002, 0x2003, 0x2004, 0x2005, 0x2006, 0x2007,
               0x2008, 0x2009, 0x200A, 0x2028, 0x2029, 0x202F, 0x205F, 0x3000, 0xFEFF]"

definition trim :: "jsstring \<Rightarrow> jsstring" where
  "trim s = rev (dropWhile isWhiteSpace (rev (dropWhile isWhiteSpace s)))"

subsection \<open>Data\<close>

datatype error = TypeError | SyntaxError | InvalidCharacterError

record TitleData =
  text' :: "jsstring option"

record TitleConfig =
  placeholder :: "jsstring option"
  preserveBlank :: "bool option"

record HostAPI =
  styles_block :: jsstring
  i18n_t :: "jsstring \<Rightarrow> jsstring"

record Args =
  data :: "TitleData option"
  config :: "TitleConfig option"
  api :: HostAPI

record Element =
  localName :: jsstring
  classList :: "jsstring list"
  contentEditable :: bool
  dataset_placeholder :: "jsstring option"
  innerHTML :: jsstring

type_synonym node = nat

type_synonym Document = "Element list"

record CSS =
  CSS_block :: jsstring
  CSS_wrapper :: jsstring

record Title =
  this_api :: HostAPI
  this_CSS :: CSS
  this_placeholder :: jsstring
  this_data :: TitleData
  this_element :: node
  this_preserveBlank :: bool

type_synonym state = "Title \<times> Document"

record PasteEvent =
  detail_data :: node

record ConversionConfig =
  export :: jsstring
  import :: jsstring

record PasteConfig =
  tags :: "jsstring list"

subsection \<open>The document\<close>

definition lookup_node :: "Document \<Rightarrow> node \<Rightarrow> Element option" where
  "lookup_node d n = (if n < length d then Some (d ! n) else None)"

definition createElement :: "jsstring \<Rightarrow> Document \<Rightarrow> node \<times> Document" where
  "createElement name d =
     (length d,
      d @ [\<lparr>localName = name, classList = [], contentEditable = False,
            dataset_placeholder = None, innerHTML = []\<rparr>])"

text \<open>
  \<open>DOMTokenList.add\<close> first checks every token in turn: the empty string raises
  \<open>SyntaxError\<close>, a token with ASCII white space (TAB, LF, FF, CR, SPACE) raises
  \<open>InvalidCharacterError\<close>. Only then are the tokens that are not yet in the list appended.
\<close>

definition isASCIIWhitespace :: "16 word \<Rightarrow> bool" where
  "isASCIIWhitespace c \<longleftrightarrow> c \<in> set [0x0009, 0x000A, 0x000C, 0x000D, 0x0020]"

definition token_error :: "jsstring \<Rightarrow> error option" where
  "token_error t =
     (if t = [] then Some SyntaxError
      else if list_ex isASCIIWhitespace t then Some InvalidCharacterError
      else None)"

fun first_token_error :: "jsstring list \<Rightarrow> error option" where
  "first_token_error [] = None"
| "first_token_error (t # ts) =
     (case token_error t of Some e \<Rightarrow> Some e | None \<Rightarrow> first_token_error ts)"

definition classList_add :: "jsstring list \<Rightarrow> jsstring list \<Rightarrow> error + jsstring list" where
  "classList_add tokens cl =
     (case first_token_error tokens of
        Some e \<Rightarrow> Inl e
      | None \<Rightarrow> Inr (foldl (\<lambda>acc t. if t \<in> set acc then acc else acc @ [t]) cl tokens))"

subsection \<open>The class\<close>

definition DEFAULT_PLACEHOLDER :: jsstring where
  "DEFAULT_PLACEHOLDER = []"

text \<open>
  \<open>drawView\<close> reads \<open>this.api\<close>, \<open>this._CSS\<close> and \<open>this._placeholder\<close>, the fields the
  constructor has assigned when it calls it. When \<open>classList.add\<close> raises, the element
  has been created and nothing refers to it.
\<close>

definition drawView ::
  "HostAPI \<Rightarrow> CSS \<Rightarrow> jsstring \<Rightarrow> Document \<Rightarrow> (error + node) \<times> Document" where
  "drawView a css ph d =
     (let (h1, d1) = createElement (js ''h1'') d;
          e = d1 ! h1
      in case classList_add [CSS_wrapper css, CSS_block css] (classList e) of
           Inl err \<Rightarrow> (Inl err, d1)
         | Inr cl \<Rightarrow>
             let e1 = e\<lparr>classList := cl\<rparr>;
                 e2 = e1\<lparr>contentEditable := True\<rparr>;
                 e3 = e2\<lparr>dataset_placeholder := Some (i18n_t a ph)\<rparr>
             in (Inr h1, d1[h1 := e3]))"

definition render :: "state \<Rightarrow> node \<times> state" where
  "render st = (this_element (fst st), st)"

text \<open>\<open>savedData.text.trim()\<close> raises when \<open>text\<close> is absent.\<close>

definition validate :: "TitleData \<Rightarrow> state \<Rightarrow> (error + bool) \<times> state" where
  "validate savedData st =
     (case text' savedData of
        None \<Rightarrow> (Inl TypeError, st)
      | Some s \<Rightarrow>
          if trim s = [] \<and> \<not> this_preserveBlank (fst st) then (Inr False, st)
          else (Inr True, st))"

definition save :: "node \<Rightarrow> state \<Rightarrow> (error + TitleData) \<times> state" where
  "save toolsContent st =
     (case lookup_node (snd st) toolsContent of
        None \<Rightarrow> (Inl TypeError, st)
      | Some e \<Rightarrow> (Inr \<lparr>text' = Some (innerHTML e)\<rparr>, st))"

text \<open>
  The getter and the setter of the \<open>data\<close> property. In \<open>this._data.text || ''\<close> an
  absent text and the empty string are the falsy values of a string property. The setter
  assigns \<open>innerHTML\<close>: the element then holds \<open>reserialise\<close> of the assigned string.
\<close>

definition get_data :: "state \<Rightarrow> (error + TitleData) \<times> state" where
  "get_data st =
     (case lookup_node (snd st) (this_element (fst st)) of
        None \<Rightarrow> (Inl TypeError, st)
      | Some e \<Rightarrow>
          let markup = innerHTML e;
              this' = (fst st)\<lparr>this_data := (this_data (fst st))\<lparr>text' := Some markup\<rparr>\<rparr>
          in (Inr (this_data this'), (this', snd st)))"

definition set_data ::
  "(jsstring \<Rightarrow> jsstring) \<Rightarrow> TitleData option \<Rightarrow> state \<Rightarrow> (error + unit) \<times> state" where
  "set_data reserialise v st =
     (let this' = (fst st)\<lparr>this_data := (case v of None \<Rightarrow> \<lparr>text' = None\<rparr> | Some r \<Rightarrow> r)\<rparr>;
          markup = (case text' (this_data this') of
                      None \<Rightarrow> []
                    | Some s \<Rightarrow> if s \<noteq> [] then s else [])
      in case lookup_node (snd st) (this_element this') of
           None \<Rightarrow> (Inl TypeError, (this', snd st))
         | Some e \<Rightarrow>
             (Inr (),
              (this', (snd st)[this_element this' := e\<lparr>innerHTML := reserialise markup\<rparr>])))"

definition onPaste ::
  "(jsstring \<Rightarrow> jsstring) \<Rightarrow> PasteEvent \<Rightarrow> state \<Rightarrow> (error + unit) \<times> state" where
  "onPaste reserialise event st =
     (case lookup_node (snd st) (detail_data event) of
        None \<Rightarrow> (Inl TypeError, st)
      | Some p \<Rightarrow> set_data reserialise (Some \<lparr>text' = Some (innerHTML p)\<rparr>) st)"

text \<open>
  The constructor. \<open>config.placeholder\<close> is the first property read from \<open>config\<close>, before
  the element is created, so an absent \<open>config\<close> raises with the document untouched.
\<close>

definition constructor ::
  "(jsstring \<Rightarrow> jsstring) \<Rightarrow> Args \<Rightarrow> Document \<Rightarrow> (error + Title) \<times> Document" where
  "constructor reserialise a d =
     (let css = \<lparr>CSS_block = styles_block (api a), CSS_wrapper = js ''ce-title''\<rparr>
      in case config a of
           None \<Rightarrow> (Inl TypeError, d)
         | Some c \<Rightarrow>
             let ph = (case placeholder c of
                         None \<Rightarrow> DEFAULT_PLACEHOLDER
                       | Some p \<Rightarrow> if p \<noteq> [] then p else DEFAULT_PLACEHOLDER)
             in (case drawView (api a) css ph d of
                   (Inl err, d1) \<Rightarrow> (Inl err, d1)
                 | (Inr h1, d1) \<Rightarrow>
                     let pb = (case preserveBlank c of None \<Rightarrow> False | Some b \<Rightarrow> b);
                         this = \<lparr>this_api = api a, this_CSS = css, this_placeholder = ph,
                                 this_data = \<lparr>text' = None\<rparr>, this_element = h1,
                                 this_preserveBlank = pb\<rparr>
                     in (case set_data reserialise (data a) (this, d1) of
                           (Inl e, (this', d')) \<Rightarrow> (Inl e, d')
                         | (Inr u, (this', d')) \<Rightarrow> (Inr this', d'))))"

definition conversionConfig :: ConversionConfig where
  "conversionConfig = \<lparr>export = js ''text'', import = js ''text''\<rparr>"

definition sanitize :: "(jsstring \<times> (jsstring \<times> bool) list) list" where
  "sanitize = [(js ''text'', [])]"

definition pasteConfig :: PasteConfig where
  "pasteConfig = \<lparr>tags = [js ''H1'']\<rparr>"

subsection \<open>Example inputs\<close>

text \<open>
  A host API whose translation lookup returns its key, the heading element that
  \<open>drawView\<close> builds for it with a given inner markup, and the instance that owns the
  first node of the document.
\<close>

definition example_api :: HostAPI where
  "example_api = \<lparr>styles_block = js ''cdx-block'', i18n_t = (\<lambda>key. key)\<rparr>"

definition example_element :: "jsstring \<Rightarrow> Element" where
  "example_element m =
     \<lparr>localName = js ''h1'', classList = [js ''ce-title'', js ''cdx-block''],
      contentEditable = True, dataset_placeholder = Some [], innerHTML = m\<rparr>"

definition example_title :: "TitleData \<Rightarrow> bool \<Rightarrow> Title" where
  "example_title r pb =
     \<lparr>this_api = example_api,
      this_CSS = \<lparr>CSS_block = js ''cdx-block'', CSS_wrapper = js ''ce-title''\<rparr>,
      this_placeholder = [], this_data = r, this_element = 0, this_preserveBlank = pb\<rparr>"

text \<open>
  An example of \<open>reserialise\<close>: what an HTML document reads back for markup that is
  character data only, that is, a string without \<open><\<close>, without U+0000, and in which no
  \<open>&\<close> is followed by a letter, a digit or \<open>#\<close>. The parser turns CR LF and CR into LF
  and makes the string one text node; the serialiser escapes \<open>&\<close>, U+00A0, \<open><\<close> and \<open>>\<close> of
  a text node. The examples below apply it to such strings only.
\<close>

fun normalize_newlines :: "jsstring \<Rightarrow> jsstring" where
  "normalize_newlines [] = []"
| "normalize_newlines [c] = [if c = 0x000D then 0x000A else c]"
| "normalize_newlines (c # c' # cs) =
     (if c = 0x000D \<and> c' = 0x000A then 0x000A # normalize_newlines cs
      else if c = 0x000D then 0x000A # normalize_newlines (c' # cs)
      else c # normalize_newlines (c' # cs))"

definition escape_text :: "jsstring \<Rightarrow> jsstring" where
  "escape_text s =
     concat (map (\<lambda>c. if c = 0x0026 then js ''&amp;''
                       else if c = 0x00A0 then js ''&nbsp;''
                       else if c = 0x003C then js ''&lt;''
                       else if c = 0x003E then js ''&gt;''
                       else [c]) s)"

definition character_data_markup :: "jsstring \<Rightarrow> jsstring" where
  "character_data_markup s = escape_text (normalize_newlines s)"

section \<open>Properties\<close>

subsection \<open>Helper facts\<close>

lemma dropWhile_all_iff:
  "(\<forall>x \<in> set (dropWhile P xs). P x) \<longleftrightarrow> (\<forall>x \<in> set xs. P x)"
  by (induction xs) auto

lemma trim_empty_iff: "trim s = [] \<longleftrightarrow> (\<forall>c \<in> set s. isWhiteSpace c)"
  by (simp add: trim_def dropWhile_all_iff)

lemma lookup_node_Some_iff: "lookup_node d n = Some e \<longleftrightarrow> n < length d \<and> e = d ! n"
  by (auto simp: lookup_node_def)

lemma token_error_wrapper: "token_error (js ''ce-title'') = None"
  by (simp add: token_error_def js_def isASCIIWhitespace_def)

text \<open>
  \<open>drawView\<close> raises exactly when the block class of the host is not a class token, and
  then with the exception of \<open>classList.add\<close>.
\<close>

lemma drawView_ok:
  assumes "CSS_wrapper css = js ''ce-title''" and "token_error (CSS_block css) = None"
  shows "fst (drawView a css ph d) = Inr (length d)
     \<and> length (snd (drawView a css ph d)) = Suc (length d)
     \<and> take (length d) (snd (drawView a css ph d)) = d"
  using assms
  by (simp add: drawView_def createElement_def classList_add_def token_error_wrapper Let_def)

lemma drawView_raises:
  assumes "CSS_wrapper css = js ''ce-title''" and "token_error (CSS_block css) = Some err"
  shows "fst (drawView a css ph d) = Inl err"
  using assms
  by (simp add: drawView_def createElement_def classList_add_def token_error_wrapper Let_def)

text \<open>On an instance whose element is a node of the document the setter does not raise.\<close>

lemma set_data_ok:
  assumes "this_element this < length d"
  shows "set_data reserialise v (this, d) =
           (Inr (),
            (this\<lparr>this_data := (case v of None \<Rightarrow> \<lparr>text' = None\<rparr> | Some r \<Rightarrow> r)\<rparr>,
             d[this_element this := (d ! this_element this)
                 \<lparr>innerHTML := reserialise
                    (case v of None \<Rightarrow> []
                     | Some r \<Rightarrow> (case text' r of None \<Rightarrow> [] | Some s \<Rightarrow> s))\<rparr>]))"
  using assms by (auto simp: set_data_def lookup_node_def Let_def split: option.splits)

text \<open>
  The constructor raises the exception of \<open>classList.add\<close> when the block class of the
  host is not a class token.
\<close>

lemma constructor_invalid_block_class:
  assumes "token_error (styles_block a) = Some err"
  shows "fst (constructor reserialise \<lparr>data = dt, config = Some c, api = a\<rparr> d) = Inl err"
proof -
  let ?css = "\<lparr>CSS_block = styles_block a, CSS_wrapper = js ''ce-title''\<rparr>"
  have "fst (drawView a ?css ph d) = Inl err" for ph
    using assms by (intro drawView_raises) simp_all
  then show ?thesis
    by (simp add: constructor_def Let_def split_beta split: sum.splits prod.splits)
qed

text \<open>
  When construction succeeds, the element of the instance is a new node of the resulting
  document, and the nodes that were there before are kept.
\<close>

lemma constructor_element_valid:
  assumes "constructor reserialise a d = (Inr this, d')"
  shows "this_element this = length d \<and> length d' = Suc (length d) \<and> take (length d) d' = d"
  using assms
  by (auto simp: constructor_def Let_def split_beta set_data_def lookup_node_def
      drawView_def createElement_def split: option.splits sum.splits prod.splits if_splits)

text \<open>
  What \<open>save(render())\<close> returns after construction, whatever the document does with the
  markup it is given: the text that the document reads back for the initial text.
\<close>

lemma save_render_reserialised:
  assumes "token_error (styles_block a) = None"
  shows "(case constructor reserialise
                 \<lparr>data = Some \<lparr>text' = Some t\<rparr>, config = Some c, api = a\<rparr> d of
            (Inl e, d') \<Rightarrow> Inl e
          | (Inr this, d') \<Rightarrow> fst (save (fst (render (this, d'))) (snd (render (this, d')))))
         = Inr \<lparr>text' = Some (reserialise t)\<rparr>"
proof -
  let ?css = "\<lparr>CSS_block = styles_block a, CSS_wrapper = js ''ce-title''\<rparr>"
  have dv: "fst (drawView a ?css ph d) = Inr (length d)
     \<and> length (snd (drawView a ?css ph d)) = Suc (length d)" for ph
    using assms drawView_ok [of ?css a ph d] by simp
  show ?thesis
    by (cases "t = []")
      (simp_all add: constructor_def Let_def split_beta set_data_ok dv render_def save_def
        lookup_node_def split: sum.splits prod.splits)
qed

text \<open>The same for \<open>onPaste\<close>: the text that the document reads back for the pasted markup.\<close>

lemma onPaste_reserialised:
  assumes "this_element this < length d"
    and "lookup_node d (detail_data event) = Some p"
  shows "fst (onPaste reserialise event (this, d)) = Inr ()
     \<and> fst (save (fst (render (snd (onPaste reserialise event (this, d)))))
              (snd (render (snd (onPaste reserialise event (this, d))))))
         = Inr \<lparr>text' = Some (reserialise (innerHTML p))\<rparr>"
  using assms by (simp add: onPaste_def set_data_ok render_def save_def lookup_node_def)

text \<open>
  The example instance is what the constructor builds in an empty document, and the
  strings of the examples that the example document reads back as written or changed.
\<close>

lemma example_constructed:
  "constructor character_data_markup
     \<lparr>data = Some \<lparr>text' = Some (js ''Old'')\<rparr>,
      config = Some \<lparr>placeholder = None, preserveBlank = None\<rparr>,
      api = example_api\<rparr> [] =
     (Inr (example_title \<lparr>text' = Some (js ''Old'')\<rparr> False), [example_element (js ''Old'')])"
  by (simp add: constructor_def drawView_def createElement_def classList_add_def token_error_def
      isASCIIWhitespace_def set_data_def lookup_node_def example_api_def example_element_def
      example_title_def DEFAULT_PLACEHOLDER_def character_data_markup_def escape_text_def
      js_def Let_def)

lemma character_data_markup_examples:
  "character_data_markup [] = []"
  "character_data_markup (js ''Hello'') = js ''Hello''"
  "character_data_markup (js ''Pasted Title'') = js ''Pasted Title''"
  "character_data_markup (js ''a & b'') = js ''a &amp; b''"
  "character_data_markup [0x0061, 0x000D, 0x0062] = [0x0061, 0x000A, 0x0062]"
  by (simp_all add: character_data_markup_def escape_text_def js_def)

subsection \<open>validate\<close>

text \<open>
  C1. For a saved record whose text is a string and any instance, \<open>validate\<close> returns
  false exactly when the trimmed text is the empty string and the instance's
  \<open>preserveBlank\<close> flag is false, and true in every other case.
\<close>

theorem validate_blank_iff:
  assumes "text' savedData = Some s"
  shows "fst (validate savedData (this, d)) =
           Inr (\<not> (trim s = [] \<and> \<not> this_preserveBlank this))"
  using assms by (simp add: validate_def)

theorem validate_blank_iff_witness:
  "text' \<lparr>text' = Some (js ''  '')\<rparr> = Some (js ''  '') \<and>
   fst (validate \<lparr>text' = Some (js ''  '')\<rparr>
          (example_title \<lparr>text' = None\<rparr> False, [example_element []])) = Inr False"
  using validate_blank_iff [of "\<lparr>text' = Some (js ''  '')\<rparr>" "js ''  ''"
      "example_title \<lparr>text' = None\<rparr> False" "[example_element []]"]
  by (simp add: js_def trim_def isWhiteSpace_def example_title_def)

text \<open>
  Trimming leaves the empty string exactly when every code unit of the text is white
  space, so a text of white space only counts as blank.
\<close>

lemma validate_false_iff_whitespace:
  "fst (validate \<lparr>text' = Some s\<rparr> (this, d)) = Inr False \<longleftrightarrow>
     (\<forall>c \<in> set s. isWhiteSpace c) \<and> \<not> this_preserveBlank this"
  by (simp add: validate_def trim_empty_iff)

text \<open>
  C4. With a saved record whose text is absent, \<open>validate\<close> returns no boolean: it raises
  at the call of \<open>trim\<close>, whatever the instance, and there is no fallback.
\<close>

theorem validate_missing_text_raises:
  "validate \<lparr>text' = None\<rparr> st = (Inl TypeError, st)"
  by (simp add: validate_def)

text \<open>
  C10. \<open>validate\<close> depends on the saved text and on the \<open>preserveBlank\<close> flag only: two
  instances with the same flag give the same result for the same saved record, whatever
  their elements and internal records hold, and neither instance nor document changes.
\<close>

theorem validate_depends_only_on_flag:
  assumes "this_preserveBlank this1 = this_preserveBlank this2"
  shows "fst (validate savedData (this1, d1)) = fst (validate savedData (this2, d2))
     \<and> snd (validate savedData (this1, d1)) = (this1, d1)
     \<and> snd (validate savedData (this2, d2)) = (this2, d2)"
  using assms by (simp add: validate_def split: option.splits)

theorem validate_depends_only_on_flag_witness:
  "this_preserveBlank (example_title \<lparr>text' = Some (js ''Old'')\<rparr> True) =
     this_preserveBlank (example_title \<lparr>text' = None\<rparr> True)
   \<and> fst (validate \<lparr>text' = Some []\<rparr>
            (example_title \<lparr>text' = Some (js ''Old'')\<rparr> True, [example_element (js ''Old'')])) =
       fst (validate \<lparr>text' = Some []\<rparr>
            (example_title \<lparr>text' = None\<rparr> True, [example_element (js ''New'')]))
   \<and> fst (validate \<lparr>text' = Some []\<rparr>
            (example_title \<lparr>text' = None\<rparr> True, [example_element (js ''New'')])) = Inr True"
  using validate_depends_only_on_flag
    [of "example_title \<lparr>text' = Some (js ''Old'')\<rparr> True" "example_title \<lparr>text' = None\<rparr> True"
        "\<lparr>text' = Some []\<rparr>" "[example_element (js ''Old'')]" "[example_element (js ''New'')]"]
  by (simp add: example_title_def validate_def)

subsection \<open>The constructor\<close>

text \<open>
  C2, as the spec states it: for every string \<open>t\<close>, constructing a block with initial data
  \<open>{text: t}\<close> and saving the node that \<open>render\<close> returns gives a record whose text is \<open>t\<close>.
  In an HTML document the text \<open>a & b\<close> is read back as \<open>a &amp; b\<close>.
\<close>

theorem save_render_roundtrip_counterexample:
  "(case constructor character_data_markup
           \<lparr>data = Some \<lparr>text' = Some (js ''a & b'')\<rparr>,
            config = Some \<lparr>placeholder = None, preserveBlank = None\<rparr>,
            api = example_api\<rparr> [] of
      (Inl e, d') \<Rightarrow> Inl e
    | (Inr this, d') \<Rightarrow> fst (save (fst (render (this, d'))) (snd (render (this, d')))))
   = Inr \<lparr>text' = Some (js ''a &amp; b'')\<rparr>
   \<and> js ''a &amp; b'' \<noteq> js ''a & b''"
  by (simp add: constructor_def drawView_def createElement_def classList_add_def token_error_def
      isASCIIWhitespace_def set_data_def lookup_node_def example_api_def render_def save_def
      DEFAULT_PLACEHOLDER_def character_data_markup_def escape_text_def js_def Let_def)

text \<open>
  C2, amended. Round trip: for every string \<open>t\<close> that the document reads back as it was
  written, every \<open>config\<close> that is present and every host whose block class is a class
  token, constructing a block with initial data \<open>{text: t}\<close> succeeds, and saving the node
  that \<open>render\<close> returns gives a record whose text is \<open>t\<close>.
\<close>

theorem save_render_roundtrip:
  assumes "token_error (styles_block a) = None" and "reserialise t = t"
  shows "(case constructor reserialise
                 \<lparr>data = Some \<lparr>text' = Some t\<rparr>, config = Some c, api = a\<rparr> d of
            (Inl e, d') \<Rightarrow> Inl e
          | (Inr this, d') \<Rightarrow> fst (save (fst (render (this, d'))) (snd (render (this, d')))))
         = Inr \<lparr>text' = Some t\<rparr>"
  using save_render_reserialised [OF assms(1), of reserialise t c d] assms(2) by simp

theorem save_render_roundtrip_witness:
  "token_error (styles_block example_api) = None
   \<and> character_data_markup (js ''Hello'') = js ''Hello''
   \<and> (case constructor character_data_markup
             \<lparr>data = Some \<lparr>text' = Some (js ''Hello'')\<rparr>,
              config = Some \<lparr>placeholder = None, preserveBlank = None\<rparr>,
              api = example_api\<rparr> [] of
        (Inl e, d') \<Rightarrow> Inl e
      | (Inr this, d') \<Rightarrow> fst (save (fst (render (this, d'))) (snd (render (this, d')))))
     = Inr \<lparr>text' = Some (js ''Hello'')\<rparr>"
proof -
  have tok: "token_error (styles_block example_api) = None"
    by (simp add: example_api_def token_error_def isASCIIWhitespace_def js_def)
  have stable: "character_data_markup (js ''Hello'') = js ''Hello''"
    by (simp add: character_data_markup_def escape_text_def js_def)
  show ?thesis
    using tok stable
      save_render_roundtrip [where a = example_api and reserialise = character_data_markup
        and t = "js ''Hello''" and c = "\<lparr>placeholder = None, preserveBlank = None\<rparr>"
        and d = "[]"]
    by simp
qed

text \<open>
  C3, as the spec states it: construction succeeds for every initial data and every
  \<open>config\<close>, an absent \<open>config\<close> included. With an absent \<open>config\<close> the constructor raises.
\<close>

theorem constructor_without_config_counterexample:
  "fst (constructor character_data_markup \<lparr>data = None, config = None, api = example_api\<rparr> [])
     = Inl TypeError"
  by (simp add: constructor_def)

text \<open>
  C3, amended. For every initial data, absent or not, every \<open>config\<close> that is present,
  whatever fields it lacks, and every host whose block class is a class token (not empty,
  no ASCII white space), construction succeeds and the missing values are replaced by
  their defaults: the empty placeholder, \<open>preserveBlank\<close> false, the empty data record.
  With an absent \<open>config\<close> construction raises and leaves the document as it was.
\<close>

theorem constructor_defaults:
  assumes "token_error (styles_block a) = None"
  shows "(case constructor reserialise \<lparr>data = dt, config = Some c, api = a\<rparr> d of
            (Inl e, d') \<Rightarrow> False
          | (Inr this, d') \<Rightarrow>
              this_placeholder this = (case placeholder c of None \<Rightarrow> [] | Some p \<Rightarrow> p)
            \<and> this_preserveBlank this = (case preserveBlank c of None \<Rightarrow> False | Some b \<Rightarrow> b)
            \<and> this_data this = (case dt of None \<Rightarrow> \<lparr>text' = None\<rparr> | Some r \<Rightarrow> r))
     \<and> constructor reserialise \<lparr>data = dt, config = None, api = a\<rparr> d = (Inl TypeError, d)"
proof -
  let ?css = "\<lparr>CSS_block = styles_block a, CSS_wrapper = js ''ce-title''\<rparr>"
  have dv: "fst (drawView a ?css ph d) = Inr (length d)
     \<and> length (snd (drawView a ?css ph d)) = Suc (length d)" for ph
    using assms drawView_ok [of ?css a ph d] by simp
  show ?thesis
    by (simp add: constructor_def Let_def split_beta set_data_ok dv DEFAULT_PLACEHOLDER_def
        split: option.splits sum.splits prod.splits)
qed

theorem constructor_defaults_witness:
  "token_error (styles_block example_api) = None
   \<and> (case constructor character_data_markup
             \<lparr>data = None, config = Some \<lparr>placeholder = None, preserveBlank = None\<rparr>,
              api = example_api\<rparr> [] of
        (Inl e, d') \<Rightarrow> False
      | (Inr this, d') \<Rightarrow>
          this_placeholder this = [] \<and> this_preserveBlank this = False
        \<and> this_data this = \<lparr>text' = None\<rparr>)"
proof -
  have tok: "token_error (styles_block example_api) = None"
    by (simp add: example_api_def token_error_def isASCIIWhitespace_def js_def)
  show ?thesis
    using tok
      constructor_defaults [where a = example_api and reserialise = character_data_markup
        and dt = None and c = "\<lparr>placeholder = None, preserveBlank = None\<rparr>" and d = "[]"]
    by (simp split: prod.splits sum.splits)
qed

subsection \<open>The data property\<close>

text \<open>
  C5. The getter derives the text from the element: whatever inner markup \<open>m\<close> the element
  of the instance holds, and whatever the internal record held before, reading \<open>data\<close>
  returns a record whose text is \<open>m\<close> and leaves the internal record with the text \<open>m\<close>.
\<close>

theorem get_data_rederives:
  assumes "lookup_node d (this_element this) = Some e" and "innerHTML e = m"
  shows "fst (get_data (this, d)) = Inr \<lparr>text' = Some m\<rparr>
     \<and> this_data (fst (snd (get_data (this, d)))) = \<lparr>text' = Some m\<rparr>
     \<and> snd (snd (get_data (this, d))) = d"
  using assms by (simp add: get_data_def Let_def)

theorem get_data_rederives_witness:
  "lookup_node [example_element (js ''Edited'')]
     (this_element (example_title \<lparr>text' = Some (js ''Old'')\<rparr> False)) =
     Some (example_element (js ''Edited''))
   \<and> innerHTML (example_element (js ''Edited'')) = js ''Edited''
   \<and> fst (get_data (example_title \<lparr>text' = Some (js ''Old'')\<rparr> False,
                     [example_element (js ''Edited'')])) = Inr \<lparr>text' = Some (js ''Edited'')\<rparr>"
  using get_data_rederives
    [of "[example_element (js ''Edited'')]" "example_title \<lparr>text' = Some (js ''Old'')\<rparr> False"
        "example_element (js ''Edited'')" "js ''Edited''"]
  by (simp add: lookup_node_def example_title_def example_element_def)

text \<open>
  C6, as the spec states it: after the setter the element's inner markup is the value's
  text. In an HTML document the element reads \<open>a &amp; b\<close> after \<open>{text: 'a & b'}\<close> has
  been assigned.
\<close>

theorem set_data_effect_counterexample:
  "map_option innerHTML
     (lookup_node
        (snd (snd (set_data character_data_markup (Some \<lparr>text' = Some (js ''a & b'')\<rparr>)
                     (example_title \<lparr>text' = None\<rparr> False, [example_element []]))))
        (this_element (example_title \<lparr>text' = None\<rparr> False)))
     = Some (js ''a &amp; b'')
   \<and> js ''a &amp; b'' \<noteq> js ''a & b''"
  by (simp add: set_data_def lookup_node_def example_title_def example_element_def
      character_data_markup_def escape_text_def js_def Let_def)

text \<open>
  C6, amended. The setter: the internal record becomes the assigned value when one is
  given and the empty record otherwise, and the element's inner markup becomes what the
  document reads back for the string assigned to it, which is the value's text when it is
  present and not empty, and the empty string otherwise.
\<close>

theorem set_data_effect:
  assumes "this_element this < length d"
  shows "fst (set_data reserialise v (this, d)) = Inr ()
     \<and> this_data (fst (snd (set_data reserialise v (this, d)))) =
          (case v of None \<Rightarrow> \<lparr>text' = None\<rparr> | Some r \<Rightarrow> r)
     \<and> map_option innerHTML
          (lookup_node (snd (snd (set_data reserialise v (this, d)))) (this_element this)) =
          Some (reserialise
                  (case v of
                     None \<Rightarrow> []
                   | Some r \<Rightarrow>
                       (case text' r of None \<Rightarrow> [] | Some s \<Rightarrow> if s \<noteq> [] then s else [])))"
  using assms by (auto simp: set_data_ok lookup_node_def split: option.splits)

theorem set_data_effect_witness:
  "this_element (example_title \<lparr>text' = Some (js ''Old'')\<rparr> False) <
     length [example_element (js ''Old'')]
   \<and> fst (set_data character_data_markup None
            (example_title \<lparr>text' = Some (js ''Old'')\<rparr> False,
             [example_element (js ''Old'')])) = Inr ()
   \<and> snd (set_data character_data_markup None
            (example_title \<lparr>text' = Some (js ''Old'')\<rparr> False,
             [example_element (js ''Old'')])) =
       (example_title \<lparr>text' = None\<rparr> False, [example_element []])"
  using set_data_effect
    [of "example_title \<lparr>text' = Some (js ''Old'')\<rparr> False" "[example_element (js ''Old'')]"
        character_data_markup None]
  by (simp add: set_data_def lookup_node_def example_title_def example_element_def
      character_data_markup_def escape_text_def Let_def)

subsection \<open>onPaste and save\<close>

text \<open>
  C7, as the spec states it: after \<open>onPaste\<close> with an event whose element has inner markup
  \<open>m\<close>, saving the node that \<open>render\<close> returns gives \<open>{text: m}\<close>. A pasted element whose
  text holds a carriage return, as the parsed \<open>a&#13;b\<close> does, has the inner markup of
  \<open>a\<close>, CR, \<open>b\<close>; assigned to the element of the instance, it is read back with a line
  feed in place of the carriage return.
\<close>

theorem onPaste_then_save_counterexample:
  "fst (save
         (fst (render (snd (onPaste character_data_markup \<lparr>detail_data = 1\<rparr>
            (example_title \<lparr>text' = None\<rparr> False,
             [example_element [], example_element [0x0061, 0x000D, 0x0062]])))))
         (snd (render (snd (onPaste character_data_markup \<lparr>detail_data = 1\<rparr>
            (example_title \<lparr>text' = None\<rparr> False,
             [example_element [], example_element [0x0061, 0x000D, 0x0062]]))))))
     = Inr \<lparr>text' = Some [0x0061, 0x000A, 0x0062]\<rparr>
   \<and> innerHTML (example_element [0x0061, 0x000D, 0x0062]) \<noteq> [0x0061, 0x000A, 0x0062]"
  by (simp add: onPaste_def set_data_def render_def save_def lookup_node_def example_title_def
      example_element_def character_data_markup_def escape_text_def Let_def)

text \<open>
  C7, amended. Whatever the element of the instance held before, after \<open>onPaste\<close> with an
  event whose element has an inner markup \<open>m\<close> that the document reads back as it was
  written, saving the node that \<open>render\<close> returns gives \<open>{text: m}\<close>.
\<close>

theorem onPaste_then_save:
  assumes "this_element this < length d"
    and "lookup_node d (detail_data event) = Some p"
    and "innerHTML p = m"
    and "reserialise m = m"
  shows "fst (onPaste reserialise event (this, d)) = Inr ()
     \<and> fst (save (fst (render (snd (onPaste reserialise event (this, d)))))
              (snd (render (snd (onPaste reserialise event (this, d))))))
         = Inr \<lparr>text' = Some m\<rparr>"
  using onPaste_reserialised [OF assms(1,2), of reserialise] assms(3,4) by simp

theorem onPaste_then_save_witness:
  "this_element (example_title \<lparr>text' = Some (js ''Old'')\<rparr> False) <
     length [example_element (js ''Old''), example_element (js ''Pasted Title'')]
   \<and> lookup_node [example_element (js ''Old''), example_element (js ''Pasted Title'')]
        (detail_data \<lparr>detail_data = 1\<rparr>) = Some (example_element (js ''Pasted Title''))
   \<and> innerHTML (example_element (js ''Pasted Title'')) = js ''Pasted Title''
   \<and> character_data_markup (js ''Pasted Title'') = js ''Pasted Title''
   \<and> snd (snd (onPaste character_data_markup \<lparr>detail_data = 1\<rparr>
        (example_title \<lparr>text' = Some (js ''Old'')\<rparr> False,
         [example_element (js ''Old''), example_element (js ''Pasted Title'')]))) =
       [example_element (js ''Pasted Title''), example_element (js ''Pasted Title'')]"
  using onPaste_then_save
    [of "example_title \<lparr>text' = Some (js ''Old'')\<rparr> False"
        "[example_element (js ''Old''), example_element (js ''Pasted Title'')]"
        "\<lparr>detail_data = 1\<rparr>" "example_element (js ''Pasted Title'')" "js ''Pasted Title''"
        character_data_markup]
  by (simp add: onPaste_def set_data_def lookup_node_def example_title_def
      example_element_def character_data_markup_def escape_text_def js_def Let_def)

text \<open>
  C8. \<open>save\<close> only reads: for a node with inner markup \<open>m\<close> it returns \<open>{text: m}\<close> and
  leaves the instance, its internal record included, and every node of the document, the
  saved one included, as they were.
\<close>

theorem save_pure_read:
  assumes "lookup_node d n = Some e" and "innerHTML e = m"
  shows "save n (this, d) = (Inr \<lparr>text' = Some m\<rparr>, (this, d))"
  using assms by (simp add: save_def)

theorem save_pure_read_witness:
  "lookup_node [example_element (js ''Edited'')] 0 = Some (example_element (js ''Edited''))
   \<and> innerHTML (example_element (js ''Edited'')) = js ''Edited''
   \<and> save 0 (example_title \<lparr>text' = Some (js ''Old'')\<rparr> False, [example_element (js ''Edited'')]) =
       (Inr \<lparr>text' = Some (js ''Edited'')\<rparr>,
        (example_title \<lparr>text' = Some (js ''Old'')\<rparr> False, [example_element (js ''Edited'')]))"
  using save_pure_read
    [of "[example_element (js ''Edited'')]" 0 "example_element (js ''Edited'')" "js ''Edited''"
        "example_title \<lparr>text' = Some (js ''Old'')\<rparr> False"]
  by (simp add: lookup_node_def example_element_def)

subsection \<open>The static declarations\<close>

text \<open>
  C9. \<open>conversionConfig.export\<close> and \<open>conversionConfig.import\<close> are both \<open>'text'\<close>, and
  \<open>pasteConfig.tags\<close> is the one-element sequence \<open>['H1']\<close>.
\<close>

theorem static_declarations:
  "export conversionConfig = js ''text'' \<and> import conversionConfig = js ''text''
     \<and> tags pasteConfig = [js ''H1'']"
  by (simp add: conversionConfig_def pasteConfig_def)

end
